theory Spec2Isabelle
  imports Complex_Main
begin

section \<open>JavaScript numbers\<close>

text \<open>
  A JavaScript number is an IEEE-754 binary64 value: NaN, the two infinities, the two
  zeros, or a finite non-zero rational. \<open>Fin 0\<close> is \<open>+0\<close> and \<open>NegZero\<close> is \<open>-0\<close>.
  Every double is a value of this type; \<open>Fin q\<close> is also written for rationals that no
  double has, so a statement about all \<open>Fin q\<close> covers every finite double.
\<close>

datatype jsnum = NaN | PInf | NInf | NegZero | Fin rat

text \<open>The number of binary digits of a positive integer (0 for \<open>n \<le> 0\<close>).\<close>

function bitlen :: "int \<Rightarrow> int" where
  "bitlen n = (if n \<le> 0 then 0 else 1 + bitlen (n div 2))"
  by pat_completeness auto
termination
  by (relation "measure nat") auto

declare bitlen.simps [simp del]

definition pow2 :: "int \<Rightarrow> rat" where
  "pow2 e = (if 0 \<le> e then 2 ^ nat e else 1 / 2 ^ nat (- e))"

text \<open>\<open>ilog2 a\<close> is the binary exponent \<open>\<lfloor>log\<^sub>2 a\<rfloor>\<close> of a positive rational.\<close>

definition ilog2 :: "rat \<Rightarrow> int" where
  "ilog2 a = (if 1 \<le> a then bitlen \<lfloor>a\<rfloor> - 1
              else - bitlen (\<lceil>1 / a\<rceil> - 1))"

text \<open>Rounding to the nearest integer, a tie going to the even one.\<close>

definition rne :: "rat \<Rightarrow> int" where
  "rne x = (let f = \<lfloor>x\<rfloor>; d = x - of_int f in
            if d < 1 / 2 then f
            else if 1 / 2 < d then f + 1
            else if even f then f else f + 1)"

text \<open>
  \<open>round64 q\<close> is the double nearest to the exact value \<open>q\<close> (round to nearest, ties to
  even): the significand has 53 bits, the unit in the last place is \<open>2\<^sup>e\<close> with
  \<open>e \<ge> -1074\<close> (subnormals), and a rounded value \<open>m * 2\<^sup>e \<ge> 2\<^sup>1\<^sup>0\<^sup>2\<^sup>4\<close>, that is
  \<open>e + bitlen m > 1024\<close>, overflows to an infinity.
\<close>

definition round64 :: "rat \<Rightarrow> jsnum" where
  "round64 q =
     (if q = 0 then Fin 0
      else let a = \<bar>q\<bar>;
               e = max (ilog2 a - 52) (- 1074);
               m = rne (a / pow2 e);
               r = of_int m * pow2 e
           in if m = 0 then (if q < 0 then NegZero else Fin 0)
              else if 1024 < e + bitlen m then (if q < 0 then NInf else PInf)
              else Fin (if q < 0 then - r else r))"

fun is_zero :: "jsnum \<Rightarrow> bool" where
  "is_zero NegZero = True"
| "is_zero (Fin q) = (q = 0)"
| "is_zero _ = False"

fun is_inf :: "jsnum \<Rightarrow> bool" where
  "is_inf PInf = True"
| "is_inf NInf = True"
| "is_inf _ = False"

text \<open>The sign bit (of a value that is not NaN).\<close>

fun sign_bit :: "jsnum \<Rightarrow> bool" where
  "sign_bit NInf = True"
| "sign_bit NegZero = True"
| "sign_bit (Fin q) = (q < 0)"
| "sign_bit _ = False"

fun rat_of :: "jsnum \<Rightarrow> rat" where
  "rat_of (Fin q) = q"
| "rat_of _ = 0"

definition signed_inf :: "bool \<Rightarrow> jsnum" where
  "signed_inf neg = (if neg then NInf else PInf)"

definition signed_zero :: "bool \<Rightarrow> jsnum" where
  "signed_zero neg = (if neg then NegZero else Fin 0)"

text \<open>The operator \<open>*\<close> on two numbers (Number::multiply).\<close>

definition js_mul :: "jsnum \<Rightarrow> jsnum \<Rightarrow> jsnum" where
  "js_mul x y =
     (if x = NaN \<or> y = NaN then NaN
      else if is_inf x \<or> is_inf y then
        (if is_zero x \<or> is_zero y then NaN else signed_inf (sign_bit x \<noteq> sign_bit y))
      else if is_zero x \<or> is_zero y then signed_zero (sign_bit x \<noteq> sign_bit y)
      else round64 (rat_of x * rat_of y))"

text \<open>The operator \<open>/\<close> on two numbers (Number::divide).\<close>

definition js_div :: "jsnum \<Rightarrow> jsnum \<Rightarrow> jsnum" where
  "js_div x y =
     (if x = NaN \<or> y = NaN then NaN
      else if is_inf x then
        (if is_inf y then NaN else signed_inf (sign_bit x \<noteq> sign_bit y))
      else if is_inf y then signed_zero (sign_bit x \<noteq> sign_bit y)
      else if is_zero y then
        (if is_zero x then NaN else signed_inf (sign_bit x \<noteq> sign_bit y))
      else if is_zero x then signed_zero (sign_bit x \<noteq> sign_bit y)
      else round64 (rat_of x / rat_of y))"

text \<open>\<open>x <= 0\<close> on a number: false for NaN, true for both zeros.\<close>

fun js_le_zero :: "jsnum \<Rightarrow> bool" where
  "js_le_zero NaN = False"
| "js_le_zero PInf = False"
| "js_le_zero NInf = True"
| "js_le_zero NegZero = True"
| "js_le_zero (Fin q) = (q \<le> 0)"

text \<open>ToBoolean on a number: NaN and the zeros are falsy.\<close>

fun num_truthy :: "jsnum \<Rightarrow> bool" where
  "num_truthy NaN = False"
| "num_truthy NegZero = False"
| "num_truthy (Fin q) = (q \<noteq> 0)"
| "num_truthy _ = True"

text \<open>The global \<open>isNaN\<close> on a number.\<close>

fun isNaN :: "jsnum \<Rightarrow> bool" where
  "isNaN NaN = True"
| "isNaN _ = False"


text \<open>A strictly positive number: a positive finite value or \<open>+Infinity\<close>.\<close>

fun is_positive :: "jsnum \<Rightarrow> bool" where
  "is_positive (Fin q) = (0 < q)"
| "is_positive PInf = True"
| "is_positive _ = False"



text \<open>A decimal literal of the source denotes the double nearest to it.\<close>

definition FL_OZ_TO_ML :: jsnum where
  "FL_OZ_TO_ML = round64 (2957 / 100)"

definition SPRAY_VOLUME_PER_1000_SQFT :: jsnum where
  "SPRAY_VOLUME_PER_1000_SQFT = Fin 1"

section \<open>JavaScript values\<close>

text \<open>
  The primitive values a property of a product record can hold; a missing property
  reads as \<open>JUndefined\<close>. Strings are byte sequences (UTF-8).
\<close>

datatype jsval = JUndefined | JNull | JBool bool | JNum jsnum | JStr string

fun ToBoolean :: "jsval \<Rightarrow> bool" where
  "ToBoolean JUndefined = False"
| "ToBoolean JNull = False"
| "ToBoolean (JBool b) = b"
| "ToBoolean (JNum n) = num_truthy n"
| "ToBoolean (JStr s) = (s \<noteq> [])"

fun typeof :: "jsval \<Rightarrow> string" where
  "typeof JUndefined = ''undefined''"
| "typeof JNull = ''object''"
| "typeof (JBool b) = ''boolean''"
| "typeof (JNum n) = ''number''"
| "typeof (JStr s) = ''string''"

text \<open>
  The number held by a value of type number. The source reads it only behind the test
  \<open>typeof v !== "number"\<close>; on other values the model gives NaN.
\<close>

fun number_of :: "jsval \<Rightarrow> jsnum" where
  "number_of (JNum n) = n"
| "number_of _ = NaN"

text \<open>The operator \<open>||\<close>: the left operand when it is truthy, else the right one.\<close>

definition js_or :: "jsval \<Rightarrow> jsval \<Rightarrow> jsval" where
  "js_or a b = (if ToBoolean a then a else b)"

text \<open>
  The two conversions from a number to text are built-ins of the host:
  \<open>Number.prototype.toFixed\<close> and the Number-to-String conversion of a template
  literal (whose last digit the language standard leaves open). The functions below
  only splice their results into the output, so they are parameters of the model.
\<close>

record js_builtins =
  NumberToString :: "jsnum \<Rightarrow> string"
  toFixed :: "jsnum \<Rightarrow> nat \<Rightarrow> string"

text \<open>ToString, as applied to a value substituted into a template literal.\<close>

fun ToString :: "js_builtins \<Rightarrow> jsval \<Rightarrow> string" where
  "ToString B JUndefined = ''undefined''"
| "ToString B JNull = ''null''"
| "ToString B (JBool b) = (if b then ''true'' else ''false'')"
| "ToString B (JNum n) = NumberToString B n"
| "ToString B (JStr s) = s"

section \<open>Data model\<close>

text \<open>
  A chemical record as \<open>calculateMix\<close> reads it: an object whose four properties hold
  primitive values (\<open>JUndefined\<close> for a property it lacks).
\<close>

record chem =
  chem_id :: jsval
  chem_name :: jsval
  defaultRatePerGallon :: jsval
  mixRate :: jsval

text \<open>
  An entry of \<open>mixItems\<close>: the object pushed with \<open>hasStoredRate: false\<close> or the one
  pushed with \<open>hasStoredRate: true\<close>.
\<close>

datatype mix_item =
    FallbackItem (item_id: jsval) (item_name: jsval) (labelRate: jsval)
  | ComputedItem (item_id: jsval) (item_name: jsval)
      (ratePerGallon: jsnum) (flOz: jsnum) (ml: jsnum)

primrec hasStoredRate :: "mix_item \<Rightarrow> bool" where
  "hasStoredRate (FallbackItem i n l) = False"
| "hasStoredRate (ComputedItem i n r f m) = True"

record mix_result =
  tankSize :: jsnum
  sprayVolume :: jsnum
  estimatedCoverageSqFt :: jsnum
  mixItems :: "mix_item list"
  mixText :: string

record granular_result =
  productName :: jsval
  areaSqFt :: jsnum
  areaThousands :: jsnum
  ratePerThousandSqFt :: jsnum
  totalLbs :: jsnum

text \<open>A calculator returns either the object \<open>{error: msg}\<close> or a success object.\<close>

datatype 'a calc_result = ErrorResult string | Success 'a

text \<open>The second argument of \<open>calculateMix\<close>: an array of records, or anything else.\<close>

datatype chemicals_arg = NotAnArray | ArrayOf "chem list"

section \<open>calculateMix\<close>

text \<open>The body of the \<open>forEach\<close> callback: the item pushed for one chemical.\<close>

definition mix_entry :: "jsnum \<Rightarrow> chem \<Rightarrow> mix_item" where
  "mix_entry tankSizeGallons c =
     (if typeof (defaultRatePerGallon c) \<noteq> ''number''
         \<or> js_le_zero (number_of (defaultRatePerGallon c))
      then
        FallbackItem (chem_id c) (chem_name c)
          (js_or (mixRate c) (JStr ''Check the product label for exact rates.''))
      else
        let flOz = js_mul (number_of (defaultRatePerGallon c)) tankSizeGallons;
            ml = js_mul flOz FL_OZ_TO_ML
        in ComputedItem (chem_id c) (chem_name c) (number_of (defaultRatePerGallon c)) flOz ml)"

text \<open>The \<open>forEach\<close> loop, pushing onto \<open>mixItems\<close>.\<close>

fun mix_loop :: "jsnum \<Rightarrow> chem list \<Rightarrow> mix_item list \<Rightarrow> mix_item list" where
  "mix_loop g [] items = items"
| "mix_loop g (c # cs) items = mix_loop g cs (items @ [mix_entry g c])"

text \<open>\<open>Array.prototype.join\<close> on strings.\<close>

fun join :: "string \<Rightarrow> string list \<Rightarrow> string" where
  "join sep [] = []"
| "join sep [x] = x"
| "join sep (x # y # ys) = x @ sep @ join sep (y # ys)"

text \<open>The line of \<open>mixText\<close> for an item with a stored rate.\<close>

definition mix_line :: "js_builtins \<Rightarrow> mix_item \<Rightarrow> string" where
  "mix_line B item =
     ToString B (item_name item) @ '': '' @ toFixed B (flOz item) 2 @ '' fl oz (~''
       @ toFixed B (ml item) 0 @ '' mL) at '' @ NumberToString B (ratePerGallon item)
       @ '' fl oz/gal''"

text \<open>
  The first argument \<open>tankSizeGallons\<close> is a number, as its JSDoc type says, or \<open>None\<close>
  when it is not supplied (\<open>undefined\<close>, which is falsy). The message is returned when
  \<open>!tankSizeGallons || tankSizeGallons <= 0\<close>, then the array is checked.
\<close>

definition calculateMix ::
  "js_builtins \<Rightarrow> jsnum option \<Rightarrow> chemicals_arg \<Rightarrow> mix_result calc_result" where
  "calculateMix B tankSizeGallons chemicalsData =
     (case tankSizeGallons of
        None \<Rightarrow> ErrorResult ''Enter a valid tank size in gallons.''
      | Some g \<Rightarrow>
          if \<not> num_truthy g \<or> js_le_zero g then
            ErrorResult ''Enter a valid tank size in gallons.''
          else
            (case chemicalsData of
               NotAnArray \<Rightarrow> ErrorResult ''Select at least one chemical.''
             | ArrayOf cs \<Rightarrow>
                 if length cs = 0 then ErrorResult ''Select at least one chemical.''
                 else
                   let items = mix_loop g cs []
                   in Success
                        \<lparr> tankSize = g,
                          sprayVolume = SPRAY_VOLUME_PER_1000_SQFT,
                          estimatedCoverageSqFt = js_mul g (Fin 1000),
                          mixItems = items,
                          mixText =
                            join ''\<newline>'' (map (mix_line B) (filter hasStoredRate items)) \<rparr>))"

section \<open>calculateGranular\<close>

text \<open>
  The parameters \<open>areaSqFt\<close> and \<open>ratePerThousandSqFt\<close> (here \<open>area\<close> and \<open>rate\<close>) are
  numbers, or \<open>None\<close> when not supplied; \<open>productName\<close> (here \<open>name\<close>) takes its default,
  the empty string, when it is \<open>undefined\<close>.
\<close>

definition calculateGranular ::
  "jsnum option \<Rightarrow> jsnum option \<Rightarrow> jsval \<Rightarrow> granular_result calc_result" where
  "calculateGranular area rate name =
     (let pname = (if name = JUndefined then JStr [] else name) in
      case area of
        None \<Rightarrow> ErrorResult ''Enter a valid area in square feet.''
      | Some a \<Rightarrow>
          if \<not> num_truthy a \<or> js_le_zero a then
            ErrorResult ''Enter a valid area in square feet.''
          else
            (case rate of
               None \<Rightarrow> ErrorResult
                 ''No stored application rate for the selected product. Please refer to the product label.''
             | Some r \<Rightarrow>
                 if \<not> num_truthy r \<or> js_le_zero r \<or> isNaN r then ErrorResult
                   ''No stored application rate for the selected product. Please refer to the product label.''
                 else
                   let thousands = js_div a (Fin 1000);
                       total = js_mul thousands r
                   in Success
                        \<lparr> productName = pname,
                          areaSqFt = a,
                          areaThousands = thousands,
                          ratePerThousandSqFt = r,
                          totalLbs = total \<rparr>))"

section \<open>Formatters\<close>

text \<open>
  A formatter returns the text, or throws: on the object \<open>{error: ''}\<close> the test
  \<open>results.error\<close> is falsy, the template is evaluated, and \<open>.toFixed\<close> of a missing
  property is a TypeError.
\<close>

datatype js_exception = TypeError

definition mix_item_html :: "js_builtins \<Rightarrow> mix_item \<Rightarrow> string" where
  "mix_item_html B item =
     (if \<not> hasStoredRate item then
        ''<li>'' @ ToString B (item_name item) @ '': '' @ ToString B (labelRate item) @ ''</li>''
      else
        ''<li>\<newline>        '' @ ToString B (item_name item) @ '': ''
          @ toFixed B (flOz item) 2 @ '' fl oz ('' @ [CHR 0xE2, CHR 0x89, CHR 0x88] @ '' ''
          @ toFixed B (ml item) 0 @ '' mL)\<newline>        at ''
          @ NumberToString B (ratePerGallon item) @ '' fl oz per gal.\<newline>      </li>'')"

text \<open>The loop \<open>results.mixItems.forEach\<close>, appending to \<open>html\<close>.\<close>

fun html_loop :: "js_builtins \<Rightarrow> mix_item list \<Rightarrow> string \<Rightarrow> string" where
  "html_loop B [] html = html"
| "html_loop B (item # items) html = html_loop B items (html @ mix_item_html B item)"

definition formatMixResultsHTML ::
  "js_builtins \<Rightarrow> mix_result calc_result \<Rightarrow> js_exception + string" where
  "formatMixResultsHTML B results =
     (case results of
        ErrorResult e \<Rightarrow> if e \<noteq> [] then Inr e else Inl TypeError
      | Success r \<Rightarrow>
          let html = ''\<newline>    <p><strong>Tank size:</strong> ''
                @ NumberToString B (tankSize r) @ '' gallons</p>\<newline>''
                @ ''    <p><strong>Spray volume:</strong> ''
                @ NumberToString B (sprayVolume r) @ '' gal per 1,000 sq ft</p>\<newline>''
                @ ''    <p><strong>Estimated coverage:</strong> ''
                @ toFixed B (estimatedCoverageSqFt r) 0 @ '' sq ft</p>\<newline>  '';
              html = html @ ''<p><strong>Chemicals and amounts:</strong></p><ul>'';
              html = html_loop B (mixItems r) html;
              html = html @ ''</ul>''
          in Inr html)"

text \<open>The text appended after the optional product line.\<close>

definition granular_body :: "js_builtins \<Rightarrow> granular_result \<Rightarrow> string" where
  "granular_body B r =
     ''\<newline>    <p><strong>Area:</strong> '' @ toFixed B (areaSqFt r) 0 @ '' sq ft (''
       @ toFixed B (areaThousands r) 2 @ '' '' @ [CHR 0xC3, CHR 0x97] @ '' 1,000 sq ft)</p>\<newline>''
       @ ''    <p><strong>Rate:</strong> '' @ NumberToString B (ratePerThousandSqFt r)
       @ '' lbs per 1,000 sq ft</p>\<newline>''
       @ ''    <p><strong>Total product needed:</strong> '' @ toFixed B (totalLbs r) 2
       @ '' lbs</p>\<newline>  ''"

definition formatGranularResultsHTML ::
  "js_builtins \<Rightarrow> granular_result calc_result \<Rightarrow> js_exception + string" where
  "formatGranularResultsHTML B results =
     (case results of
        ErrorResult e \<Rightarrow> if e \<noteq> [] then Inr e else Inl TypeError
      | Success r \<Rightarrow>
          let html = [];
              html = (if ToBoolean (productName r)
                      then html @ ''<p><strong>Product:</strong> ''
                             @ ToString B (productName r) @ ''</p>''
                      else html);
              html = html @ granular_body B r
          in Inr html)"

section \<open>Facts about the number model\<close>

lemma round64_1: "round64 1 = Fin 1"
  by code_simp

lemma round64_2: "round64 2 = Fin 2"
  by code_simp

lemma div_5000_1000: "js_div (Fin 5000) (Fin 1000) = Fin 5"
  by code_simp

lemma mul_5_4: "js_mul (Fin 5) (Fin 4) = Fin 20"
  by code_simp

lemma div_2500_1000: "js_div (Fin 2500) (Fin 1000) = Fin (5 / 2)"
  by code_simp

lemma mul_2_5_3_5: "js_mul (Fin (5 / 2)) (Fin (7 / 2)) = Fin (35 / 4)"
  by code_simp

lemma mul_25_1000: "js_mul (Fin 25) (Fin 1000) = Fin 25000"
  by code_simp

lemma mul_2_5_25: "js_mul (Fin (5 / 2)) (Fin 25) = Fin (125 / 2)"
  by code_simp


lemma mul_62_5_FL: "js_mul (Fin (125 / 2)) FL_OZ_TO_ML = Fin (14785 / 8)"
  by code_simp

lemma is_positive_valid: "is_positive n \<Longrightarrow> num_truthy n \<and> \<not> js_le_zero n \<and> \<not> isNaN n"
  by (cases n) auto





















lemma valid_positive: "num_truthy n \<Longrightarrow> \<not> js_le_zero n \<Longrightarrow> is_positive n"
  by (cases n) auto


lemma is_positive_not_NaN: "is_positive n \<Longrightarrow> n \<noteq> NaN"
  by (cases n) auto








section \<open>Facts about the calculators\<close>

lemma mix_loop_append: "mix_loop g cs items = items @ map (mix_entry g) cs"
  by (induction cs arbitrary: items) simp_all

text \<open>On a positive tank size and a non-empty array \<open>calculateMix\<close> succeeds.\<close>

lemma calculateMix_success:
  assumes "is_positive g" and "cs \<noteq> []"
  shows "calculateMix B (Some g) (ArrayOf cs) = Success
           \<lparr> tankSize = g,
             sprayVolume = Fin 1,
             estimatedCoverageSqFt = js_mul g (Fin 1000),
             mixItems = map (mix_entry g) cs,
             mixText = join ''\<newline>''
               (map (mix_line B) (filter hasStoredRate (map (mix_entry g) cs))) \<rparr>"
  using assms is_positive_valid [of g]
  by (simp add: calculateMix_def mix_loop_append SPRAY_VOLUME_PER_1000_SQFT_def Let_def)


lemma mix_entry_positive:
  assumes "defaultRatePerGallon c = JNum r" and "is_positive r"
  shows "mix_entry g c = ComputedItem (chem_id c) (chem_name c) r
           (js_mul r g) (js_mul (js_mul r g) FL_OZ_TO_ML)"
  using assms is_positive_valid [of r] by (simp add: mix_entry_def Let_def)

text \<open>
  A rate that is not a number, or a number that is zero or negative, gives the fallback
  item, whose \<open>labelRate\<close> is truthy.
\<close>

lemma mix_entry_fallback:
  assumes "typeof (defaultRatePerGallon c) \<noteq> ''number''
           \<or> defaultRatePerGallon c \<in> {JNum NegZero, JNum NInf}
           \<or> (\<exists>q. q \<le> 0 \<and> defaultRatePerGallon c = JNum (Fin q))"
  shows "mix_entry g c = FallbackItem (chem_id c) (chem_name c)
           (if ToBoolean (mixRate c) then mixRate c
            else JStr ''Check the product label for exact rates.'')
         \<and> \<not> hasStoredRate (mix_entry g c)
         \<and> ToBoolean (labelRate (mix_entry g c))"
  using assms by (auto simp: mix_entry_def js_or_def)

lemma item_id_mix_entry: "item_id (mix_entry g c) = chem_id c"
  by (simp add: mix_entry_def Let_def)

lemma item_name_mix_entry: "item_name (mix_entry g c) = chem_name c"
  by (simp add: mix_entry_def Let_def)

lemma calculateGranular_success:
  assumes "is_positive a" and "is_positive r"
  shows "calculateGranular (Some a) (Some r) name = Success
           \<lparr> productName = (if name = JUndefined then JStr [] else name),
             areaSqFt = a,
             areaThousands = js_div a (Fin 1000),
             ratePerThousandSqFt = r,
             totalLbs = js_mul (js_div a (Fin 1000)) r \<rparr>"
  using assms is_positive_valid [of a] is_positive_valid [of r]
  by (simp add: calculateGranular_def Let_def)



lemma calculateGranular_Success_D:
  assumes "calculateGranular area rate name = Success gres"
  obtains a r where "area = Some a" and "rate = Some r" and "is_positive a" and "is_positive r"
    and "areaSqFt gres = a" and "ratePerThousandSqFt gres = r"
    and "areaThousands gres = js_div a (Fin 1000)"
    and "totalLbs gres = js_mul (js_div a (Fin 1000)) r"
    and "productName gres = (if name = JUndefined then JStr [] else name)"
proof -
  from assms obtain a r where ar: "area = Some a" "rate = Some r"
    "num_truthy a" "\<not> js_le_zero a" "num_truthy r" "\<not> js_le_zero r"
    by (auto simp: calculateGranular_def Let_def split: option.splits if_splits)
  then have p: "is_positive a" "is_positive r"
    by (simp_all add: valid_positive)
  from calculateGranular_success [OF p, of name] assms ar
  have "gres = \<lparr> productName = (if name = JUndefined then JStr [] else name),
             areaSqFt = a,
             areaThousands = js_div a (Fin 1000),
             ratePerThousandSqFt = r,
             totalLbs = js_mul (js_div a (Fin 1000)) r \<rparr>"
    by simp
  with ar p that show ?thesis
    by simp
qed



lemma granular_5000_4:
  "calculateGranular (Some (Fin 5000)) (Some (Fin 4)) name = Success
     \<lparr> productName = (if name = JUndefined then JStr [] else name), areaSqFt = Fin 5000,
       areaThousands = Fin 5, ratePerThousandSqFt = Fin 4, totalLbs = Fin 20 \<rparr>"
  by (simp add: calculateGranular_success div_5000_1000 mul_5_4)

lemma granular_2500_3_5:
  "calculateGranular (Some (Fin 2500)) (Some (Fin (7 / 2))) name = Success
     \<lparr> productName = (if name = JUndefined then JStr [] else name), areaSqFt = Fin 2500,
       areaThousands = Fin (5 / 2), ratePerThousandSqFt = Fin (7 / 2),
       totalLbs = Fin (35 / 4) \<rparr>"
  by (simp add: calculateGranular_success div_2500_1000 mul_2_5_3_5)

section \<open>The claims\<close>

text \<open>
  C1. For every strictly positive tank size \<open>g\<close> and every product of the list whose
  \<open>defaultRatePerGallon\<close> is a strictly positive number \<open>r\<close>, the entry of \<open>mixItems\<close> at
  the product's position is the computed item with \<open>ratePerGallon = r\<close>,
  \<open>flOz = r * g\<close>, \<open>ml = flOz * 29.57\<close> (the products of doubles, \<open>29.57\<close> being the
  constant \<open>FL_OZ_TO_ML\<close>) and \<open>hasStoredRate\<close> true; and the result has
  \<open>sprayVolume = 1\<close> and \<open>estimatedCoverageSqFt = g * 1000\<close>, whatever the products are.
\<close>

theorem calculateMix_computed:
  assumes "is_positive g" and "cs \<noteq> []"
  shows "\<exists>res. calculateMix B (Some g) (ArrayOf cs) = Success res
           \<and> tankSize res = g
           \<and> sprayVolume res = Fin 1
           \<and> estimatedCoverageSqFt res = js_mul g (Fin 1000)
           \<and> length (mixItems res) = length cs
           \<and> (\<forall>i r. i < length cs \<and> defaultRatePerGallon (cs ! i) = JNum r \<and> is_positive r \<longrightarrow>
                 mixItems res ! i = ComputedItem (chem_id (cs ! i)) (chem_name (cs ! i)) r
                     (js_mul r g) (js_mul (js_mul r g) FL_OZ_TO_ML)
                 \<and> hasStoredRate (mixItems res ! i))"
  using calculateMix_success [OF assms, of B] by (simp add: mix_entry_positive)

theorem calculateMix_computed_witness:
  "\<forall>B. \<exists>res. calculateMix B (Some (Fin 25)) (ArrayOf
       [\<lparr> chem_id = JStr ''chem1'', chem_name = JStr ''Test Chemical'',
          defaultRatePerGallon = JNum (Fin (5 / 2)), mixRate = JStr ''2.5 fl oz/gal'' \<rparr>])
       = Success res
     \<and> tankSize res = Fin 25 \<and> sprayVolume res = Fin 1
     \<and> estimatedCoverageSqFt res = Fin 25000
     \<and> mixItems res = [ComputedItem (JStr ''chem1'') (JStr ''Test Chemical'')
          (Fin (5 / 2)) (Fin (125 / 2)) (Fin (14785 / 8))]"
proof
  fix B
  let ?c = "\<lparr> chem_id = JStr ''chem1'', chem_name = JStr ''Test Chemical'',
          defaultRatePerGallon = JNum (Fin (5 / 2)), mixRate = JStr ''2.5 fl oz/gal'' \<rparr>"
  have "is_positive (Fin 25)" and "[?c] \<noteq> []"
    by simp_all
  from calculateMix_computed [OF this, of B] obtain res where
    res: "calculateMix B (Some (Fin 25)) (ArrayOf [?c]) = Success res"
      "tankSize res = Fin 25" "sprayVolume res = Fin 1"
      "estimatedCoverageSqFt res = js_mul (Fin 25) (Fin 1000)"
      "length (mixItems res) = 1"
    and at: "\<And>i r. i < length [?c] \<and> defaultRatePerGallon ([?c] ! i) = JNum r \<and> is_positive r \<Longrightarrow>
      mixItems res ! i = ComputedItem (chem_id ([?c] ! i)) (chem_name ([?c] ! i)) r
        (js_mul r (Fin 25)) (js_mul (js_mul r (Fin 25)) FL_OZ_TO_ML)"
    by auto
  from at [of 0 "Fin (5 / 2)"]
  have "mixItems res ! 0 = ComputedItem (JStr ''chem1'') (JStr ''Test Chemical'')
          (Fin (5 / 2)) (Fin (125 / 2)) (Fin (14785 / 8))"
    by (simp add: mul_2_5_25 mul_62_5_FL)
  with res(5) have "mixItems res = [ComputedItem (JStr ''chem1'') (JStr ''Test Chemical'')
          (Fin (5 / 2)) (Fin (125 / 2)) (Fin (14785 / 8))]"
    by (cases "mixItems res") auto
  with res show "\<exists>res. calculateMix B (Some (Fin 25)) (ArrayOf [?c]) = Success res
     \<and> tankSize res = Fin 25 \<and> sprayVolume res = Fin 1
     \<and> estimatedCoverageSqFt res = Fin 25000
     \<and> mixItems res = [ComputedItem (JStr ''chem1'') (JStr ''Test Chemical'')
          (Fin (5 / 2)) (Fin (125 / 2)) (Fin (14785 / 8))]"
    by (simp add: mul_25_1000)
qed

text \<open>
  C2. The claim says that a product whose \<open>defaultRatePerGallon\<close> is not a strictly
  positive number, NaN included, gets a fallback item. The code tests
  \<open>typeof rate !== "number" || rate <= 0\<close>; NaN has type number and \<open>NaN <= 0\<close> is false,
  so a NaN rate takes the computed branch: the item has \<open>hasStoredRate\<close> true and
  \<open>flOz\<close> and \<open>ml\<close> are NaN. (For every other rate the claim names, \<open>mix_entry_fallback\<close>
  above gives the fallback item with a truthy \<open>labelRate\<close>.)
\<close>

theorem calculateMix_nan_rate:
  "\<exists>res. calculateMix B (Some (Fin 25)) (ArrayOf
      [\<lparr> chem_id = JStr ''chem1'', chem_name = JStr ''Test Chemical'',
         defaultRatePerGallon = JNum NaN, mixRate = JStr ''See label'' \<rparr>]) = Success res
    \<and> mixItems res = [ComputedItem (JStr ''chem1'') (JStr ''Test Chemical'') NaN NaN NaN]
    \<and> hasStoredRate (mixItems res ! 0)"
  by (simp add: calculateMix_def mix_entry_def js_mul_def Let_def)

theorem calculateMix_nan_rate_witness:
  "\<forall>B. \<exists>res. calculateMix B (Some (Fin 25)) (ArrayOf
      [\<lparr> chem_id = JStr ''chem1'', chem_name = JStr ''Test Chemical'',
         defaultRatePerGallon = JNum NaN, mixRate = JStr ''See label'' \<rparr>]) = Success res
    \<and> mixItems res = [ComputedItem (JStr ''chem1'') (JStr ''Test Chemical'') NaN NaN NaN]
    \<and> hasStoredRate (mixItems res ! 0)"
  using calculateMix_nan_rate by (rule allI)




text \<open>
  C4. For every valid granular input (a strictly positive area and rate),
  \<open>calculateGranular\<close> returns \<open>areaThousands = areaSqFt / 1000\<close> and
  \<open>totalLbs = areaThousands * ratePerThousandSqFt\<close> (the quotient and product of doubles)
  and echoes \<open>productName\<close>, the empty string when it is omitted; area 5000 and rate 4
  give \<open>areaThousands = 5\<close> and \<open>totalLbs = 20\<close>, area 2500 and rate 3.5 give
  \<open>totalLbs = 8.75\<close>.
\<close>

theorem calculateGranular_computes:
  "(is_positive a \<and> is_positive r \<longrightarrow>
      calculateGranular (Some a) (Some r) name = Success
        \<lparr> productName = (if name = JUndefined then JStr [] else name),
          areaSqFt = a,
          areaThousands = js_div a (Fin 1000),
          ratePerThousandSqFt = r,
          totalLbs = js_mul (js_div a (Fin 1000)) r \<rparr>)
   \<and> calculateGranular (Some (Fin 5000)) (Some (Fin 4)) (JStr ''Test Granular Product'') = Success
        \<lparr> productName = JStr ''Test Granular Product'', areaSqFt = Fin 5000,
          areaThousands = Fin 5, ratePerThousandSqFt = Fin 4, totalLbs = Fin 20 \<rparr>
   \<and> calculateGranular (Some (Fin 2500)) (Some (Fin (7 / 2))) JUndefined = Success
        \<lparr> productName = JStr [], areaSqFt = Fin 2500,
          areaThousands = Fin (5 / 2), ratePerThousandSqFt = Fin (7 / 2),
          totalLbs = Fin (35 / 4) \<rparr>"
  using calculateGranular_success [of a r name]
  by (simp add: granular_5000_4 granular_2500_3_5)

theorem calculateGranular_computes_witness:
  "calculateGranular (Some (Fin 1000)) (Some (Fin 2)) JUndefined = Success
     \<lparr> productName = JStr [], areaSqFt = Fin 1000, areaThousands = Fin 1,
       ratePerThousandSqFt = Fin 2, totalLbs = Fin 2 \<rparr>"
proof -
  have h: "is_positive (Fin 1000) \<and> is_positive (Fin 2)"
    by simp
  have d: "js_div (Fin 1000) (Fin 1000) = Fin 1"
    by (simp add: js_div_def round64_1)
  have m: "js_mul (Fin 1) (Fin 2) = Fin 2"
    by (simp add: js_mul_def round64_2)
  from calculateGranular_computes [of "Fin 1000" "Fin 2" JUndefined] h
  have "calculateGranular (Some (Fin 1000)) (Some (Fin 2)) JUndefined = Success
        \<lparr> productName = (if JUndefined = JUndefined then JStr [] else JUndefined),
          areaSqFt = Fin 1000,
          areaThousands = js_div (Fin 1000) (Fin 1000),
          ratePerThousandSqFt = Fin 2,
          totalLbs = js_mul (js_div (Fin 1000) (Fin 1000)) (Fin 2) \<rparr>"
    by blast
  then show ?thesis
    by (simp add: d m)
qed

text \<open>
  C5. For every tank size that is absent, zero or negative, \<open>calculateMix\<close> returns the
  error \<open>Enter a valid tank size in gallons.\<close>, whatever the product list is (an array,
  empty or not, or no array at all); the result is never a success.
\<close>

theorem calculateMix_invalid_tank:
  assumes "tank = None \<or> tank = Some NegZero \<or> tank = Some NInf
           \<or> (\<exists>q. q \<le> 0 \<and> tank = Some (Fin q))"
  shows "calculateMix B tank chemicals = ErrorResult ''Enter a valid tank size in gallons.''"
  using assms by (auto simp: calculateMix_def)

theorem calculateMix_invalid_tank_witness:
  "\<forall>B. calculateMix B (Some (Fin (- 3))) NotAnArray
          = ErrorResult ''Enter a valid tank size in gallons.''
     \<and> calculateMix B None (ArrayOf []) = ErrorResult ''Enter a valid tank size in gallons.''"
proof (intro allI conjI)
  fix B
  have h: "Some (Fin (- 3)) = None \<or> Some (Fin (- 3)) = Some NegZero
           \<or> Some (Fin (- 3)) = Some NInf \<or> (\<exists>q. q \<le> 0 \<and> Some (Fin (- 3)) = Some (Fin q))"
    by simp
  show "calculateMix B (Some (Fin (- 3))) NotAnArray
          = ErrorResult ''Enter a valid tank size in gallons.''"
    by (rule calculateMix_invalid_tank [OF h])
  show "calculateMix B None (ArrayOf []) = ErrorResult ''Enter a valid tank size in gallons.''"
    by (rule calculateMix_invalid_tank) simp
qed

text \<open>
  C6. For every strictly positive tank size and the empty product array, \<open>calculateMix\<close>
  returns the error \<open>Select at least one chemical.\<close>, never a success.
\<close>

theorem calculateMix_no_chemicals:
  assumes "is_positive g"
  shows "calculateMix B (Some g) (ArrayOf []) = ErrorResult ''Select at least one chemical.''"
  using is_positive_valid [OF assms] by (simp add: calculateMix_def)

theorem calculateMix_no_chemicals_witness:
  "\<forall>B. calculateMix B (Some (Fin 25)) (ArrayOf []) = ErrorResult ''Select at least one chemical.''"
proof
  fix B
  have "is_positive (Fin 25)"
    by simp
  then show "calculateMix B (Some (Fin 25)) (ArrayOf [])
               = ErrorResult ''Select at least one chemical.''"
    by (rule calculateMix_no_chemicals)
qed

text \<open>
  C7. \<open>calculateGranular\<close> reports the first failure: for an area that is absent, zero or
  negative it returns the error \<open>Enter a valid area in square feet.\<close>, whatever the rate
  is; for a strictly positive area and a rate that is absent, zero, negative or NaN it
  returns the error \<open>No stored application rate for the selected product. Please refer to
  the product label.\<close> In neither case is the result a success.
\<close>

theorem calculateGranular_invalid:
  "((area = None \<or> area = Some NegZero \<or> area = Some NInf
       \<or> (\<exists>q. q \<le> 0 \<and> area = Some (Fin q)))
      \<longrightarrow> calculateGranular area rate name = ErrorResult ''Enter a valid area in square feet.'')
   \<and> (is_positive a \<and>
        (rate = None \<or> rate = Some NaN \<or> rate = Some NegZero \<or> rate = Some NInf
           \<or> (\<exists>q. q \<le> 0 \<and> rate = Some (Fin q)))
      \<longrightarrow> calculateGranular (Some a) rate name = ErrorResult
            ''No stored application rate for the selected product. Please refer to the product label.'')"
  by (auto simp: calculateGranular_def dest: is_positive_valid)

theorem calculateGranular_invalid_witness:
  "calculateGranular (Some (Fin 0)) (Some NaN) JUndefined
      = ErrorResult ''Enter a valid area in square feet.''
   \<and> calculateGranular (Some (Fin 5000)) (Some NaN) JUndefined = ErrorResult
        ''No stored application rate for the selected product. Please refer to the product label.''"
proof
  have "Some (Fin 0) = None \<or> Some (Fin 0) = Some NegZero \<or> Some (Fin 0) = Some NInf
       \<or> (\<exists>q. q \<le> 0 \<and> Some (Fin 0) = Some (Fin q))"
    by simp
  with calculateGranular_invalid [of "Some (Fin 0)" "Some NaN" JUndefined]
  show "calculateGranular (Some (Fin 0)) (Some NaN) JUndefined
          = ErrorResult ''Enter a valid area in square feet.''"
    by blast
  have "is_positive (Fin 5000) \<and>
        (Some NaN = None \<or> Some NaN = Some NaN \<or> Some NaN = Some NegZero \<or> Some NaN = Some NInf
           \<or> (\<exists>q. q \<le> 0 \<and> Some NaN = Some (Fin q)))"
    by simp
  with calculateGranular_invalid [of _ "Some NaN" JUndefined "Fin 5000"]
  show "calculateGranular (Some (Fin 5000)) (Some NaN) JUndefined = ErrorResult
        ''No stored application rate for the selected product. Please refer to the product label.''"
    by blast
qed

text \<open>
  C8. For every valid input (a strictly positive tank size and a non-empty array),
  \<open>mixItems\<close> holds exactly one entry per product, the entry of the product at the same
  position: the ids and names are those of the input, in the input's order, duplicates
  kept.
\<close>

theorem calculateMix_order:
  assumes "is_positive g" and "cs \<noteq> []"
  shows "\<exists>res. calculateMix B (Some g) (ArrayOf cs) = Success res
           \<and> mixItems res = map (mix_entry g) cs
           \<and> length (mixItems res) = length cs
           \<and> map item_id (mixItems res) = map chem_id cs
           \<and> map item_name (mixItems res) = map chem_name cs"
  using calculateMix_success [OF assms, of B]
  by (simp add: item_id_mix_entry item_name_mix_entry comp_def)

theorem calculateMix_order_witness:
  "\<forall>B. \<exists>res. calculateMix B (Some (Fin 10)) (ArrayOf
       [\<lparr> chem_id = JStr ''chem2'', chem_name = JStr ''Chemical 2'',
          defaultRatePerGallon = JNum (Fin 2), mixRate = JUndefined \<rparr>,
        \<lparr> chem_id = JStr ''chem1'', chem_name = JStr ''Chemical 1'',
          defaultRatePerGallon = JUndefined, mixRate = JStr ''See label'' \<rparr>,
        \<lparr> chem_id = JStr ''chem2'', chem_name = JStr ''Chemical 2'',
          defaultRatePerGallon = JNum (Fin 2), mixRate = JUndefined \<rparr>]) = Success res
     \<and> length (mixItems res) = 3
     \<and> map item_id (mixItems res) = [JStr ''chem2'', JStr ''chem1'', JStr ''chem2'']
     \<and> map item_name (mixItems res) = [JStr ''Chemical 2'', JStr ''Chemical 1'', JStr ''Chemical 2'']
     \<and> map hasStoredRate (mixItems res) = [True, False, True]"
proof
  fix B
  let ?a = "\<lparr> chem_id = JStr ''chem2'', chem_name = JStr ''Chemical 2'',
          defaultRatePerGallon = JNum (Fin 2), mixRate = JUndefined \<rparr>"
  let ?b = "\<lparr> chem_id = JStr ''chem1'', chem_name = JStr ''Chemical 1'',
          defaultRatePerGallon = JUndefined, mixRate = JStr ''See label'' \<rparr>"
  have "is_positive (Fin 10)" and "[?a, ?b, ?a] \<noteq> []"
    by simp_all
  from calculateMix_order [OF this, of B] obtain res where
    res: "calculateMix B (Some (Fin 10)) (ArrayOf [?a, ?b, ?a]) = Success res"
      "mixItems res = map (mix_entry (Fin 10)) [?a, ?b, ?a]"
      "length (mixItems res) = length [?a, ?b, ?a]"
      "map item_id (mixItems res) = map chem_id [?a, ?b, ?a]"
      "map item_name (mixItems res) = map chem_name [?a, ?b, ?a]"
    by blast
  have "map hasStoredRate (mixItems res) = [True, False, True]"
    unfolding res(2) by (simp add: mix_entry_def Let_def)
  with res show "\<exists>res. calculateMix B (Some (Fin 10)) (ArrayOf [?a, ?b, ?a]) = Success res
     \<and> length (mixItems res) = 3
     \<and> map item_id (mixItems res) = [JStr ''chem2'', JStr ''chem1'', JStr ''chem2'']
     \<and> map item_name (mixItems res) = [JStr ''Chemical 2'', JStr ''Chemical 1'', JStr ''Chemical 2'']
     \<and> map hasStoredRate (mixItems res) = [True, False, True]"
    by simp
qed

text \<open>
  C9. For every non-empty error string \<open>X\<close>, both formatters return exactly \<open>X\<close> on the
  object \<open>{error: X}\<close>: nothing is added and nothing else is read.
\<close>

theorem format_error_verbatim:
  assumes "X \<noteq> []"
  shows "formatMixResultsHTML B (ErrorResult X) = Inr X
         \<and> formatGranularResultsHTML B (ErrorResult X) = Inr X"
  using assms by (simp add: formatMixResultsHTML_def formatGranularResultsHTML_def)

theorem format_error_verbatim_witness:
  "\<forall>B. formatMixResultsHTML B (ErrorResult ''Test error'') = Inr ''Test error''
     \<and> formatGranularResultsHTML B (ErrorResult ''Test error'') = Inr ''Test error''"
proof
  fix B
  have "''Test error'' \<noteq> []"
    by simp
  then show "formatMixResultsHTML B (ErrorResult ''Test error'') = Inr ''Test error''
     \<and> formatGranularResultsHTML B (ErrorResult ''Test error'') = Inr ''Test error''"
    by (rule format_error_verbatim)
qed

text \<open>
  C10. For every success result of \<open>calculateGranular\<close>, the text of
  \<open>formatGranularResultsHTML\<close> begins with the line \<open><p><strong>Product:</strong> ...\<close> if
  and only if \<open>productName\<close> is truthy, which for a string means non-empty. With or
  without that line, the text goes on with the area line (\<open>areaSqFt\<close> to 0 decimals and
  \<open>areaThousands\<close> to 2), the rate line and the total line (\<open>totalLbs\<close> to 2 decimals),
  and these are the area and rate passed in and the quotient and product computed from
  them. When \<open>productName\<close> is the empty string, as it is for an omitted argument, the
  text is those three lines alone.
\<close>

theorem formatGranular_product_line:
  assumes "calculateGranular area rate name = Success r"
  shows "\<exists>html. formatGranularResultsHTML B (Success r) = Inr html
           \<and> ((\<exists>rest. html = ''<p><strong>Product:</strong> '' @ rest) \<longleftrightarrow> ToBoolean (productName r))
           \<and> html =
               (if ToBoolean (productName r)
                then ''<p><strong>Product:</strong> '' @ ToString B (productName r) @ ''</p>''
                else [])
               @ ''\<newline>    <p><strong>Area:</strong> '' @ toFixed B (areaSqFt r) 0 @ '' sq ft (''
               @ toFixed B (areaThousands r) 2 @ '' '' @ [CHR 0xC3, CHR 0x97]
               @ '' 1,000 sq ft)</p>\<newline>''
               @ ''    <p><strong>Rate:</strong> '' @ NumberToString B (ratePerThousandSqFt r)
               @ '' lbs per 1,000 sq ft</p>\<newline>''
               @ ''    <p><strong>Total product needed:</strong> '' @ toFixed B (totalLbs r) 2
               @ '' lbs</p>\<newline>  ''
           \<and> area = Some (areaSqFt r) \<and> rate = Some (ratePerThousandSqFt r)
           \<and> areaThousands r = js_div (areaSqFt r) (Fin 1000)
           \<and> totalLbs r = js_mul (areaThousands r) (ratePerThousandSqFt r)
           \<and> productName r = (if name = JUndefined then JStr [] else name)
           \<and> (\<forall>s. productName r = JStr s \<longrightarrow> (ToBoolean (productName r) \<longleftrightarrow> s \<noteq> []))
           \<and> (name = JUndefined \<longrightarrow> \<not> ToBoolean (productName r))"
proof -
  from assms obtain a t where ar: "area = Some a" "rate = Some t"
    "areaSqFt r = a" "ratePerThousandSqFt r = t"
    "areaThousands r = js_div a (Fin 1000)"
    "totalLbs r = js_mul (js_div a (Fin 1000)) t"
    "productName r = (if name = JUndefined then JStr [] else name)"
    by (rule calculateGranular_Success_D)
  have nb: "\<not> (\<exists>rest. granular_body B r = ''<p><strong>Product:</strong> '' @ rest)"
    by (simp add: granular_body_def)
  have html: "formatGranularResultsHTML B (Success r) = Inr
      ((if ToBoolean (productName r)
        then ''<p><strong>Product:</strong> '' @ ToString B (productName r) @ ''</p>''
        else []) @ granular_body B r)"
    by (simp add: formatGranularResultsHTML_def Let_def)
  have iff: "(\<exists>rest. (if ToBoolean (productName r)
        then ''<p><strong>Product:</strong> '' @ ToString B (productName r) @ ''</p>''
        else []) @ granular_body B r = ''<p><strong>Product:</strong> '' @ rest)
      \<longleftrightarrow> ToBoolean (productName r)"
    using nb by auto
  have body: "granular_body B r =
      ''\<newline>    <p><strong>Area:</strong> '' @ toFixed B (areaSqFt r) 0 @ '' sq ft (''
       @ toFixed B (areaThousands r) 2 @ '' '' @ [CHR 0xC3, CHR 0x97]
       @ '' 1,000 sq ft)</p>\<newline>''
       @ ''    <p><strong>Rate:</strong> '' @ NumberToString B (ratePerThousandSqFt r)
       @ '' lbs per 1,000 sq ft</p>\<newline>''
       @ ''    <p><strong>Total product needed:</strong> '' @ toFixed B (totalLbs r) 2
       @ '' lbs</p>\<newline>  ''"
    by (simp add: granular_body_def)
  have str: "\<forall>s. productName r = JStr s \<longrightarrow> (ToBoolean (productName r) \<longleftrightarrow> s \<noteq> [])"
    by simp
  have undef: "name = JUndefined \<longrightarrow> \<not> ToBoolean (productName r)"
    using ar(7) by simp
  show ?thesis
    unfolding html using iff body ar str undef
    by (intro exI [of _ "(if ToBoolean (productName r)
        then ''<p><strong>Product:</strong> '' @ ToString B (productName r) @ ''</p>''
        else []) @ granular_body B r"]) simp
qed

theorem formatGranular_product_line_witness:
  "\<forall>B. formatGranularResultsHTML B (Success
          \<lparr> productName = JStr ''Test Product'', areaSqFt = Fin 5000, areaThousands = Fin 5,
            ratePerThousandSqFt = Fin 4, totalLbs = Fin 20 \<rparr>)
        = Inr (''<p><strong>Product:</strong> Test Product</p>''
            @ ''\<newline>    <p><strong>Area:</strong> '' @ toFixed B (Fin 5000) 0 @ '' sq ft (''
            @ toFixed B (Fin 5) 2 @ '' '' @ [CHR 0xC3, CHR 0x97] @ '' 1,000 sq ft)</p>\<newline>''
            @ ''    <p><strong>Rate:</strong> '' @ NumberToString B (Fin 4)
            @ '' lbs per 1,000 sq ft</p>\<newline>''
            @ ''    <p><strong>Total product needed:</strong> '' @ toFixed B (Fin 20) 2
            @ '' lbs</p>\<newline>  '')
     \<and> formatGranularResultsHTML B (Success
          \<lparr> productName = JStr [], areaSqFt = Fin 5000, areaThousands = Fin 5,
            ratePerThousandSqFt = Fin 4, totalLbs = Fin 20 \<rparr>)
        = Inr (''\<newline>    <p><strong>Area:</strong> '' @ toFixed B (Fin 5000) 0 @ '' sq ft (''
            @ toFixed B (Fin 5) 2 @ '' '' @ [CHR 0xC3, CHR 0x97] @ '' 1,000 sq ft)</p>\<newline>''
            @ ''    <p><strong>Rate:</strong> '' @ NumberToString B (Fin 4)
            @ '' lbs per 1,000 sq ft</p>\<newline>''
            @ ''    <p><strong>Total product needed:</strong> '' @ toFixed B (Fin 20) 2
            @ '' lbs</p>\<newline>  '')"
proof (intro allI conjI)
  fix B
  let ?r = "\<lparr> productName = JStr ''Test Product'', areaSqFt = Fin 5000, areaThousands = Fin 5,
            ratePerThousandSqFt = Fin 4, totalLbs = Fin 20 \<rparr>"
  have "calculateGranular (Some (Fin 5000)) (Some (Fin 4)) (JStr ''Test Product'') = Success ?r"
    by (simp add: granular_5000_4)
  from formatGranular_product_line [OF this, of B]
  show "formatGranularResultsHTML B (Success ?r)
        = Inr (''<p><strong>Product:</strong> Test Product</p>''
            @ ''\<newline>    <p><strong>Area:</strong> '' @ toFixed B (Fin 5000) 0 @ '' sq ft (''
            @ toFixed B (Fin 5) 2 @ '' '' @ [CHR 0xC3, CHR 0x97] @ '' 1,000 sq ft)</p>\<newline>''
            @ ''    <p><strong>Rate:</strong> '' @ NumberToString B (Fin 4)
            @ '' lbs per 1,000 sq ft</p>\<newline>''
            @ ''    <p><strong>Total product needed:</strong> '' @ toFixed B (Fin 20) 2
            @ '' lbs</p>\<newline>  '')"
    by auto
next
  fix B
  let ?r = "\<lparr> productName = JStr [], areaSqFt = Fin 5000, areaThousands = Fin 5,
            ratePerThousandSqFt = Fin 4, totalLbs = Fin 20 \<rparr>"
  have "calculateGranular (Some (Fin 5000)) (Some (Fin 4)) JUndefined = Success ?r"
    by (simp add: granular_5000_4)
  from formatGranular_product_line [OF this, of B]
  show "formatGranularResultsHTML B (Success ?r)
        = Inr (''\<newline>    <p><strong>Area:</strong> '' @ toFixed B (Fin 5000) 0 @ '' sq ft (''
            @ toFixed B (Fin 5) 2 @ '' '' @ [CHR 0xC3, CHR 0x97] @ '' 1,000 sq ft)</p>\<newline>''
            @ ''    <p><strong>Rate:</strong> '' @ NumberToString B (Fin 4)
            @ '' lbs per 1,000 sq ft</p>\<newline>''
            @ ''    <p><strong>Total product needed:</strong> '' @ toFixed B (Fin 20) 2
            @ '' lbs</p>\<newline>  '')"
    by auto
qed

end
